theory Spec2Isabelle
  imports Main
begin

section \<open>Go values used by the handlers of cmd/gaea-cc/server.go\<close>

text \<open>
  A Go \<open>error\<close> is a value with a method \<open>Error()\<close> that returns its message. The handlers
  only ever read that message. \<open>errorString\<close> is an error with an arbitrary message (the
  decoder's syntax errors, whatever a service returns); \<open>InvalidUnmarshalError\<close> is the error
  of encoding/json for a nil target, carrying the Go name of the target's type; the last
  four are the error taxonomy of the design (section 7), each carrying its message.
\<close>

datatype error =
    errorString string
  | InvalidUnmarshalError string
  | ValidationError string
  | NotFoundError string
  | ConflictError string
  | UnreachableError string

fun Error :: "error \<Rightarrow> string" where
  "Error (errorString m) = m"
| "Error (InvalidUnmarshalError T) = ''json: Unmarshal(nil '' @ T @ '')''"
| "Error (ValidationError m) = m"
| "Error (NotFoundError m) = m"
| "Error (ConflictError m) = m"
| "Error (UnreachableError m) = m"

subsection \<open>strings.TrimSpace\<close>

text \<open>
  Go strings are byte sequences, read as UTF-8. \<open>strings.TrimSpace\<close> removes every leading
  and every trailing rune for which \<open>unicode.IsSpace\<close> holds. Those runes are the six ASCII
  ones, U+0085, U+00A0, U+1680, U+2000 to U+200A, U+2028, U+2029, U+202F, U+205F and
  U+3000; \<open>spaceRunes\<close> lists their UTF-8 encodings. A byte sequence that is not the
  encoding of one of them decodes to another rune (or to the error rune), which is kept.
\<close>

definition asciiSpace :: "char list" where
  "asciiSpace = [CHR 0x09, CHR 0x0A, CHR 0x0B, CHR 0x0C, CHR 0x0D, CHR 0x20]"

definition spaceRunes :: "string list" where
  "spaceRunes =
     map (\<lambda>c. [c]) asciiSpace @
     [[CHR 0xC2, CHR 0x85], [CHR 0xC2, CHR 0xA0], [CHR 0xE1, CHR 0x9A, CHR 0x80]] @
     map (\<lambda>b. [CHR 0xE2, CHR 0x80, b])
       [CHR 0x80, CHR 0x81, CHR 0x82, CHR 0x83, CHR 0x84, CHR 0x85, CHR 0x86, CHR 0x87,
        CHR 0x88, CHR 0x89, CHR 0x8A, CHR 0xA8, CHR 0xA9, CHR 0xAF] @
     [[CHR 0xE2, CHR 0x81, CHR 0x9F], [CHR 0xE3, CHR 0x80, CHR 0x80]]"

definition leadingSpace :: "string \<Rightarrow> string option" where
  "leadingSpace s = find (\<lambda>e. take (length e) s = e) spaceRunes"

definition trailingSpace :: "string \<Rightarrow> string option" where
  "trailingSpace s =
     find (\<lambda>e. length e \<le> length s \<and> drop (length s - length e) s = e) spaceRunes"

function TrimLeftSpace :: "string \<Rightarrow> string" where
  "TrimLeftSpace s =
     (case leadingSpace s of
        None \<Rightarrow> s
      | Some e \<Rightarrow> TrimLeftSpace (drop (length e) s))"
  by pat_completeness auto
termination
proof (relation "measure length")
  show "wf (measure length)" by simp
next
  fix s e
  assume found: "leadingSpace s = Some e"
  then have mem: "e \<in> set spaceRunes" and pre: "take (length e) s = e"
    by (auto simp: leadingSpace_def find_Some_iff)
  from mem have pos: "0 < length e"
    by (auto simp: spaceRunes_def asciiSpace_def)
  from pre have "length (take (length e) s) = length e" by simp
  then have "length e \<le> length s" by simp
  with pos show "(drop (length e) s, s) \<in> measure length"
    by (simp del: length_greater_0_conv)
qed

function TrimRightSpace :: "string \<Rightarrow> string" where
  "TrimRightSpace s =
     (case trailingSpace s of
        None \<Rightarrow> s
      | Some e \<Rightarrow> TrimRightSpace (take (length s - length e) s))"
  by pat_completeness auto
termination
proof (relation "measure length")
  show "wf (measure length)" by simp
next
  fix s e
  assume found: "trailingSpace s = Some e"
  then have mem: "e \<in> set spaceRunes" and le: "length e \<le> length s"
    by (auto simp: trailingSpace_def find_Some_iff)
  from mem have "0 < length e"
    by (auto simp: spaceRunes_def asciiSpace_def)
  with le show "(take (length s - length e) s, s) \<in> measure length"
    by (simp del: length_greater_0_conv)
qed

declare TrimLeftSpace.simps [simp del] TrimRightSpace.simps [simp del]

definition TrimSpace :: "string \<Rightarrow> string" where
  "TrimSpace s = TrimRightSpace (TrimLeftSpace s)"

subsection \<open>gin.Context and BindJSON\<close>

text \<open>
  Of \<open>*gin.Context\<close> the handlers read the path parameters and the request body. \<open>Param\<close>
  returns the empty string for a key the route did not bind. The body is kept as what the
  JSON decoder reads from it: \<open>Inl e\<close> when no JSON value can be read (an empty body, a
  syntax error), with the decoder's error \<open>e\<close>; \<open>Inr v\<close> when the body is a well-formed JSON
  text, \<open>v\<close> being the value it denotes at the target type.
\<close>

record 'a Context =
  Params :: "(string \<times> string) list"
  Body :: "error + 'a"

definition Param :: "'a Context \<Rightarrow> string \<Rightarrow> string" where
  "Param c key = (case map_of (Params c) key of None \<Rightarrow> [] | Some v \<Rightarrow> v)"

text \<open>
  A Go pointer \<open>*T\<close> is an \<open>option\<close>: \<open>None\<close> is nil, \<open>Some v\<close> points to a struct holding
  \<open>v\<close>. \<open>c.BindJSON(obj)\<close> runs \<open>json.NewDecoder(body).Decode(obj)\<close>: the decoder first reads
  one JSON value from the body and returns its error if that fails; it then refuses a nil
  target with \<open>InvalidUnmarshalError\<close>, and otherwise stores the value in the struct the
  pointer refers to. The pointer is passed by value: a nil pointer is still nil afterwards.
  gin validates the struct after a successful decoding; that step is left out, since the
  handlers below never get that far.
  \<open>T\<close> is the Go name of the pointer's type, which the error message quotes.
\<close>

definition BindJSON :: "string \<Rightarrow> 'a Context \<Rightarrow> 'a option \<Rightarrow> error option \<times> 'a option" where
  "BindJSON T c obj =
     (case Body c of
        Inl e \<Rightarrow> (Some e, obj)
      | Inr v \<Rightarrow>
          (case obj of
             None \<Rightarrow> (Some (InvalidUnmarshalError T), None)
           | Some old \<Rightarrow> (None, Some v)))"

subsection \<open>The service calls and the world they act on\<close>

text \<open>
  The functions of package \<open>cc/service\<close> are parameters of the handlers, with the
  configuration \<open>s.cfg\<close> already applied. Each takes the state of the backing store and
  returns Go's result tuple together with the new state. The world threaded through a
  handler is that state and the trace of service calls made so far.
\<close>

datatype 'ns call =
    QueryNamespaceCall "string list"
  | ModifyNamespaceCall "'ns option"
  | DelNamespaceCall string
  | SQLFingerprintCall string
  | ProxyConfigFingerprintCall

record ('s, 'ns) world =
  store :: 's
  calls :: "'ns call list"

text \<open>
  What a handler does with the response: \<open>c.JSON(code, body)\<close>, or a run-time panic (a nil
  pointer dereference).
\<close>

datatype 'r outcome = JSON int 'r | Panic

definition StatusOK :: int where
  "StatusOK = 200"

section \<open>The handlers\<close>

record RetHeader =
  RetCode :: int
  RetMessage :: string

record QueryReq =
  Names :: "string list"

text \<open>A nil slice and a nil map are the empty list and the empty map.\<close>

record 'ns QueryNamespaceResp =
  RetHeader :: RetHeader
  Data :: "'ns list"

definition queryNamespace ::
  "(string list \<Rightarrow> 's \<Rightarrow> ('ns list \<times> error option) \<times> 's) \<Rightarrow> QueryReq Context \<Rightarrow>
   ('s, 'ns) world \<Rightarrow> 'ns QueryNamespaceResp outcome \<times> ('s, 'ns) world" where
  "queryNamespace QueryNamespace c w =
     (let req = None;
          h = \<lparr>RetCode = -1, RetMessage = []\<rparr>;
          r = \<lparr>RetHeader = h, Data = []\<rparr>;
          (err, req) = BindJSON ''*main.QueryReq'' c req
      in case err of
           Some e \<Rightarrow> (JSON StatusOK (r\<lparr>RetHeader := h\<lparr>RetMessage := Error e\<rparr>\<rparr>), w)
         | None \<Rightarrow>
             (case req of
                None \<Rightarrow> (Panic, w)
              | Some q \<Rightarrow>
                  (let ((data, err), s') = QueryNamespace (Names q) (store w);
                       w' = w\<lparr>store := s', calls := calls w @ [QueryNamespaceCall (Names q)]\<rparr>;
                       r = r\<lparr>Data := data\<rparr>
                   in case err of
                        Some e \<Rightarrow> (JSON StatusOK r, w')
                      | None \<Rightarrow>
                          (JSON StatusOK
                             (r\<lparr>RetHeader := h\<lparr>RetCode := 0, RetMessage := ''SUCC''\<rparr>\<rparr>), w'))))"

definition modifyNamespace ::
  "('ns option \<Rightarrow> 's \<Rightarrow> error option \<times> 's) \<Rightarrow> 'ns Context \<Rightarrow>
   ('s, 'ns) world \<Rightarrow> RetHeader outcome \<times> ('s, 'ns) world" where
  "modifyNamespace ModifyNamespace c w =
     (let namespace = None;
          h = \<lparr>RetCode = -1, RetMessage = []\<rparr>;
          (err, namespace) = BindJSON ''*models.Namespace'' c namespace
      in case err of
           Some e \<Rightarrow> (JSON StatusOK h, w)
         | None \<Rightarrow>
             (let (err, s') = ModifyNamespace namespace (store w);
                  w' = w\<lparr>store := s', calls := calls w @ [ModifyNamespaceCall namespace]\<rparr>
              in case err of
                   Some e \<Rightarrow> (JSON StatusOK h, w')
                 | None \<Rightarrow> (JSON StatusOK (h\<lparr>RetCode := 0, RetMessage := ''SUCC''\<rparr>), w')))"

definition delNamespace ::
  "(string \<Rightarrow> 's \<Rightarrow> error option \<times> 's) \<Rightarrow> 'a Context \<Rightarrow>
   ('s, 'ns) world \<Rightarrow> RetHeader outcome \<times> ('s, 'ns) world" where
  "delNamespace DelNamespace c w =
     (let h = \<lparr>RetCode = -1, RetMessage = []\<rparr>;
          name = TrimSpace (Param c ''name'')
      in if name = [] then (JSON StatusOK (h\<lparr>RetMessage := ''input name is empty''\<rparr>), w)
         else
           (let (err, s') = DelNamespace name (store w);
                w' = w\<lparr>store := s', calls := calls w @ [DelNamespaceCall name]\<rparr>
            in case err of
                 Some e \<Rightarrow>
                   (JSON StatusOK (h\<lparr>RetMessage := ''delete namespace faild, '' @ Error e\<rparr>), w')
               | None \<Rightarrow> (JSON StatusOK (h\<lparr>RetCode := 0, RetMessage := ''SUCC''\<rparr>), w')))"

record sqlFingerprintResp =
  RetHeader :: RetHeader
  ErrSQLs :: "string \<rightharpoonup> string"
  SlowSQLs :: "string \<rightharpoonup> string"

definition sqlFingerprint ::
  "(string \<Rightarrow> 's \<Rightarrow> ((string \<rightharpoonup> string) \<times> (string \<rightharpoonup> string) \<times> error option) \<times> 's) \<Rightarrow>
   'a Context \<Rightarrow> ('s, 'ns) world \<Rightarrow> sqlFingerprintResp outcome \<times> ('s, 'ns) world" where
  "sqlFingerprint SQLFingerprint c w =
     (let r = \<lparr>RetHeader = \<lparr>RetCode = -1, RetMessage = []\<rparr>,
               ErrSQLs = Map.empty, SlowSQLs = Map.empty\<rparr>;
          name = TrimSpace (Param c ''name'')
      in if name = []
         then (JSON StatusOK
                 (r\<lparr>RetHeader := (RetHeader r)\<lparr>RetMessage := ''input name is empty''\<rparr>\<rparr>), w)
         else
           (let ((slow, errs, err), s') = SQLFingerprint name (store w);
                w' = w\<lparr>store := s', calls := calls w @ [SQLFingerprintCall name]\<rparr>;
                r = r\<lparr>SlowSQLs := slow, ErrSQLs := errs\<rparr>
            in case err of
                 Some e \<Rightarrow>
                   (JSON StatusOK (r\<lparr>RetHeader := (RetHeader r)\<lparr>RetMessage := Error e\<rparr>\<rparr>), w')
               | None \<Rightarrow>
                   (JSON StatusOK
                      (r\<lparr>RetHeader := (RetHeader r)\<lparr>RetCode := 0, RetMessage := ''SUCC''\<rparr>\<rparr>),
                    w')))"

text \<open>
  The values of the fingerprint map are strings in the source (\<open>map[string]string\<close>); the
  handler only passes the map on, so its value type is left open.
\<close>

record 'v proxyConfigFingerprintResp =
  RetHeader :: RetHeader
  Data :: "string \<rightharpoonup> 'v"

definition proxyConfigFingerprint ::
  "('s \<Rightarrow> ((string \<rightharpoonup> 'v) \<times> error option) \<times> 's) \<Rightarrow> 'a Context \<Rightarrow>
   ('s, 'ns) world \<Rightarrow> 'v proxyConfigFingerprintResp outcome \<times> ('s, 'ns) world" where
  "proxyConfigFingerprint ProxyConfigFingerprint c w =
     (let r = \<lparr>RetHeader = \<lparr>RetCode = -1, RetMessage = []\<rparr>, Data = Map.empty\<rparr>;
          ((data, err), s') = ProxyConfigFingerprint (store w);
          w' = w\<lparr>store := s', calls := calls w @ [ProxyConfigFingerprintCall]\<rparr>;
          r = r\<lparr>Data := data\<rparr>
      in case err of
           Some e \<Rightarrow>
             (JSON StatusOK (r\<lparr>RetHeader := (RetHeader r)\<lparr>RetMessage := Error e\<rparr>\<rparr>), w')
         | None \<Rightarrow>
             (JSON StatusOK
                (r\<lparr>RetHeader := (RetHeader r)\<lparr>RetCode := 0, RetMessage := ''SUCC''\<rparr>\<rparr>), w'))"

subsection \<open>When a handler's steps all succeed\<close>

text \<open>
  The steps of each handler, in the order the source runs them: checking the name,
  binding the request, calling the service. Each predicate says that none of the steps
  of that handler returned an error.
\<close>

definition queryNamespace_ok ::
  "(string list \<Rightarrow> 's \<Rightarrow> ('ns list \<times> error option) \<times> 's) \<Rightarrow> QueryReq Context \<Rightarrow>
   ('s, 'ns) world \<Rightarrow> bool" where
  "queryNamespace_ok QueryNamespace c w =
     (case BindJSON ''*main.QueryReq'' c None of
        (None, Some q) \<Rightarrow> snd (fst (QueryNamespace (Names q) (store w))) = None
      | _ \<Rightarrow> False)"

definition modifyNamespace_ok ::
  "('ns option \<Rightarrow> 's \<Rightarrow> error option \<times> 's) \<Rightarrow> 'ns Context \<Rightarrow> ('s, 'ns) world \<Rightarrow> bool" where
  "modifyNamespace_ok ModifyNamespace c w =
     (case BindJSON ''*models.Namespace'' c None of
        (None, namespace) \<Rightarrow> fst (ModifyNamespace namespace (store w)) = None
      | _ \<Rightarrow> False)"

definition delNamespace_ok ::
  "(string \<Rightarrow> 's \<Rightarrow> error option \<times> 's) \<Rightarrow> 'a Context \<Rightarrow> ('s, 'ns) world \<Rightarrow> bool" where
  "delNamespace_ok DelNamespace c w =
     (let name = TrimSpace (Param c ''name'')
      in name \<noteq> [] \<and> fst (DelNamespace name (store w)) = None)"

definition sqlFingerprint_ok ::
  "(string \<Rightarrow> 's \<Rightarrow> ((string \<rightharpoonup> string) \<times> (string \<rightharpoonup> string) \<times> error option) \<times> 's) \<Rightarrow>
   'a Context \<Rightarrow> ('s, 'ns) world \<Rightarrow> bool" where
  "sqlFingerprint_ok SQLFingerprint c w =
     (let name = TrimSpace (Param c ''name'')
      in name \<noteq> [] \<and> snd (snd (fst (SQLFingerprint name (store w)))) = None)"

definition proxyConfigFingerprint_ok ::
  "('s \<Rightarrow> ((string \<rightharpoonup> 'v) \<times> error option) \<times> 's) \<Rightarrow> ('s, 'ns) world \<Rightarrow> bool" where
  "proxyConfigFingerprint_ok ProxyConfigFingerprint w =
     (snd (fst (ProxyConfigFingerprint (store w))) = None)"

text \<open>
  What a header must look like, given whether all steps succeeded: the code is -1 or 0,
  it is 0 exactly on success, the message of a success is SUCC, and a failure keeps -1.
\<close>

definition retCodeReflects :: "RetHeader \<Rightarrow> bool \<Rightarrow> bool" where
  "retCodeReflects h ok =
     ((RetCode h = -1 \<or> RetCode h = 0) \<and> (RetCode h = 0) = ok \<and>
      (if ok then RetMessage h = ''SUCC'' else RetCode h = -1))"

subsection \<open>A service with a fixed answer\<close>

text \<open>
  For running a handler on a concrete request: a service that returns \<open>r\<close> whatever it is
  asked and leaves the store as it is.
\<close>

definition answer :: "'r \<Rightarrow> 'k \<Rightarrow> 's \<Rightarrow> 'r \<times> 's" where
  "answer r k s = (r, s)"

section \<open>The services behind the handlers, from the design\<close>

text \<open>
  Package \<open>cc/service\<close>, the stores it talks to and the SQL fingerprinter are not among
  the sources. Where a property is decided by them, they are modelled here from the
  design document, operation by operation, and handed to the handlers above as their
  service functions.
\<close>

subsection \<open>NamespaceStore (design sections 3 and 4.1)\<close>

text \<open>
  Modelled from the spec: the class tag of an SQLFingerprintEntry, \<open>slow\<close> or \<open>error\<close>.
\<close>

datatype sqlClass = SlowSQL | ErrorSQL

text \<open>
  Modelled from the spec: an SQLFingerprintEntry, holding the canonical fingerprint, one
  sample of the SQL text, the class tag and the number of occurrences.
\<close>

record SQLFingerprintEntry =
  canonical :: string
  sample :: string
  classTag :: sqlClass
  occurrences :: nat

text \<open>
  Modelled from the spec: the persisted state of the store, one record per namespace
  keyed by name and the fingerprint entries keyed by namespace and fingerprint. The type
  of namespace objects (\<open>models.Namespace\<close>) is left open.
\<close>

record 'ns NamespaceStore =
  namespaces :: "(string \<times> 'ns) list"
  entries :: "((string \<times> string) \<times> SQLFingerprintEntry) list"

text \<open>
  Modelled from the spec: \<open>delete(name)\<close> of the NamespaceStore, which stands for the missing
  \<open>service.DelNamespace\<close>. It fails with NotFoundError when no namespace has that name and
  leaves the store as it is; otherwise it removes the namespace and, in cascade, the
  fingerprint entries of that namespace.
\<close>

definition NamespaceStore_delete ::
  "string \<Rightarrow> 'ns NamespaceStore \<Rightarrow> error option \<times> 'ns NamespaceStore" where
  "NamespaceStore_delete name st =
     (case map_of (namespaces st) name of
        None \<Rightarrow> (Some (NotFoundError (''namespace not found: '' @ name)), st)
      | Some ns \<Rightarrow>
          (None,
           st\<lparr>namespaces := filter (\<lambda>kv. fst kv \<noteq> name) (namespaces st),
              entries := filter (\<lambda>kv. fst (fst kv) \<noteq> name) (entries st)\<rparr>))"

subsection \<open>FleetRegistry and ConfigFingerprintVerifier (design sections 3, 4.4 and 4.5)\<close>

text \<open>
  Modelled from the spec: the result reported for one node, a fingerprint or the
  unreachable marker (the tagged variant of the design notes).
\<close>

datatype nodeResult = Fingerprint string | Unreachable

text \<open>
  Modelled from the spec: what the registry keeps for a ProxyNode, its last known
  fingerprint, when it was last observed, and whether it is marked unreachable.
\<close>

record ProxyNode =
  lastFingerprint :: string
  lastObserved :: nat
  unreachable :: bool

text \<open>
  Modelled from the spec: the fleet as the verifier meets it. \<open>registry\<close> holds the known
  nodes by address; \<open>answering\<close> lists the nodes that answer a poll within the timeout,
  with the fingerprint of their active configuration (any other node times out or
  errors); \<open>clock\<close> is the time of the pass.
\<close>

record Fleet =
  registry :: "(string \<times> ProxyNode) list"
  answering :: "(string \<times> string) list"
  clock :: nat

text \<open>
  Modelled from the spec: \<open>poll(addr)\<close> of the FleetRegistry. It fails with UnreachableError
  when the node does not answer, and the node is then marked unreachable, not deleted; a
  success stores the fingerprint and the time in the node's entry.
\<close>

definition poll :: "string \<Rightarrow> Fleet \<Rightarrow> (error + string) \<times> Fleet" where
  "poll addr fl =
     (case map_of (answering fl) addr of
        None \<Rightarrow>
          (Inl (UnreachableError (''unreachable: '' @ addr)),
           fl\<lparr>registry :=
                map (\<lambda>an. if fst an = addr then (addr, (snd an)\<lparr>unreachable := True\<rparr>) else an)
                  (registry fl)\<rparr>)
      | Some fp \<Rightarrow>
          (Inr fp,
           fl\<lparr>registry :=
                map (\<lambda>an. if fst an = addr
                          then (addr, \<lparr>lastFingerprint = fp, lastObserved = clock fl,
                                       unreachable = False\<rparr>)
                          else an)
                  (registry fl)\<rparr>))"

text \<open>
  Modelled from the spec: the fan-out and fan-in of \<open>verify()\<close>, one poll per address; a
  poll that fails is reported as \<open>Unreachable\<close> and the pass goes on. The polls of the
  design run concurrently and unordered; a poll only touches its own node's entry, so
  they are taken one after the other here.
\<close>

fun pollAll :: "string list \<Rightarrow> Fleet \<Rightarrow> (string \<times> nodeResult) list \<times> Fleet" where
  "pollAll [] fl = ([], fl)"
| "pollAll (a # as) fl =
     (case poll a fl of
        (r, fl1) \<Rightarrow>
          (case pollAll as fl1 of
             (rs, fl2) \<Rightarrow>
               ((a, case r of Inl e \<Rightarrow> Unreachable | Inr fp \<Rightarrow> Fingerprint fp) # rs, fl2)))"

text \<open>
  Modelled from the spec: \<open>verify()\<close> of the ConfigFingerprintVerifier, which stands for the
  missing \<open>service.ProxyConfigFingerprint\<close>: every node known to the registry is polled and
  the mapping from address to result is returned, with no error.
\<close>

definition verify :: "Fleet \<Rightarrow> ((string \<rightharpoonup> nodeResult) \<times> error option) \<times> Fleet" where
  "verify fl =
     (case pollAll (map fst (registry fl)) fl of
        (rs, fl') \<Rightarrow> ((map_of rs, None), fl'))"

text \<open>What a pass must report for the node at an address, read off the fleet.\<close>

definition observed :: "Fleet \<Rightarrow> string \<Rightarrow> nodeResult" where
  "observed fl a =
     (case map_of (answering fl) a of None \<Rightarrow> Unreachable | Some fp \<Rightarrow> Fingerprint fp)"

subsection \<open>SQLFingerprinter (design section 4.2)\<close>

text \<open>
  Modelled from the spec: the classes of bytes the fingerprinter tells apart, white space,
  digits, letters, the bytes of a word (letters, digits, underscore), the bytes of a
  numeric literal (digits and the point) and the two quote characters.
\<close>

definition isSpaceByte :: "char \<Rightarrow> bool" where
  "isSpaceByte c = (c \<in> set asciiSpace)"

definition isDigit :: "char \<Rightarrow> bool" where
  "isDigit c = (48 \<le> (of_char c :: nat) \<and> (of_char c :: nat) \<le> 57)"

definition isUpper :: "char \<Rightarrow> bool" where
  "isUpper c = (65 \<le> (of_char c :: nat) \<and> (of_char c :: nat) \<le> 90)"

definition isLower :: "char \<Rightarrow> bool" where
  "isLower c = (97 \<le> (of_char c :: nat) \<and> (of_char c :: nat) \<le> 122)"

definition isWordByte :: "char \<Rightarrow> bool" where
  "isWordByte c = (isUpper c \<or> isLower c \<or> isDigit c \<or> c = CHR ''_'')"

definition isNumberByte :: "char \<Rightarrow> bool" where
  "isNumberByte c = (isDigit c \<or> c = CHR ''.'')"

definition isQuote :: "char \<Rightarrow> bool" where
  "isQuote c = (c = CHR 0x27 \<or> c = CHR 0x22)"

definition toLower :: "char \<Rightarrow> char" where
  "toLower c = (if isUpper c then char_of (of_char c + (32 :: nat)) else c)"

text \<open>
  Modelled from the spec: the input that follows a quoted-string literal opened by \<open>q\<close>.
  A literal that is never closed runs to the end of the input (malformed SQL is not an
  error).
\<close>

definition afterQuote :: "char \<Rightarrow> string \<Rightarrow> string" where
  "afterQuote q cs = (case dropWhile (\<lambda>x. x \<noteq> q) cs of [] \<Rightarrow> [] | x # rest \<Rightarrow> rest)"

text \<open>
  Modelled from the spec: "lowercase keyword tokens". The table of keywords \<open>kws\<close> (in
  lower case) is not given by the design and is a parameter; a word that is a keyword
  whatever its case is written in lower case, any other word is kept.
\<close>

definition keywordToken :: "string list \<Rightarrow> string \<Rightarrow> string" where
  "keywordToken kws w = (if map toLower w \<in> set kws then map toLower w else w)"

text \<open>
  Modelled from the spec: the scanning loop of \<open>fingerprint\<close>. It reads the input from the
  left and appends to \<open>out\<close>: a single space for a run of white space, the placeholder
  \<open>?\<close> for a numeric literal and for a quoted-string literal, the keyword in lower case,
  any other token as it is. The loop is written without a bound; that it ends on every
  input is a theorem, not part of the definition.
\<close>

partial_function (option) scan :: "string list \<Rightarrow> string \<Rightarrow> string \<Rightarrow> string option" where
  "scan kws out s =
     (case s of
        [] \<Rightarrow> Some out
      | c # cs \<Rightarrow>
          if isSpaceByte c then scan kws (out @ '' '') (dropWhile isSpaceByte cs)
          else if isDigit c then scan kws (out @ ''?'') (dropWhile isNumberByte cs)
          else if isQuote c then scan kws (out @ ''?'') (afterQuote c cs)
          else if isWordByte c
            then scan kws (out @ keywordToken kws (c # takeWhile isWordByte cs))
                   (dropWhile isWordByte cs)
          else scan kws (out @ [c]) cs)"

declare scan.simps [code]

text \<open>Modelled from the spec: "strip trailing statement terminators".\<close>

definition stripTerminators :: "string \<Rightarrow> string" where
  "stripTerminators out = rev (dropWhile (\<lambda>c. c = CHR '';'') (rev out))"

text \<open>
  Modelled from the spec: \<open>fingerprint(sql)\<close> of the SQLFingerprinter, a function of the
  SQL text (and the keyword table) alone. \<open>None\<close> would be a run that does not return.
\<close>

definition fingerprint :: "string list \<Rightarrow> string \<Rightarrow> string option" where
  "fingerprint kws sql = map_option stripTerminators (scan kws [] sql)"

section \<open>Properties of the handlers\<close>

lemma BindJSON_nil: "\<exists>e. BindJSON T c None = (Some e, None)"
  by (simp add: BindJSON_def split: sum.splits)

text \<open>
  C8. Both \<open>queryNamespace\<close> and \<open>modifyNamespace\<close> hand a nil pointer to \<open>BindJSON\<close>, so
  binding fails on every request. Each handler answers from its first error branch with
  \<open>ret_code\<close> -1 and returns the world as it found it: no service call is added to the
  trace, the store is untouched, and the outcome is a response, never the panic of
  reading \<open>req.Names\<close> through nil.
\<close>

theorem nil_binding_always_fails:
  "(\<exists>e. BindJSON ''*main.QueryReq'' c None = (Some e, None) \<and>
        queryNamespace QN c w =
          (JSON StatusOK
             \<lparr>QueryNamespaceResp.RetHeader = \<lparr>RetCode = -1, RetMessage = Error e\<rparr>,
              Data = []\<rparr>, w)) \<and>
   (\<exists>e. BindJSON ''*models.Namespace'' c' None = (Some e, None) \<and>
        modifyNamespace MN c' w = (JSON StatusOK \<lparr>RetCode = -1, RetMessage = []\<rparr>, w))"
  by (auto simp: queryNamespace_def modifyNamespace_def BindJSON_def split: sum.splits)

text \<open>
  C1. A request to \<open>queryNamespace\<close> whose body is the well-formed JSON text
  \<open>{"names": ["shop"]}\<close> is answered with \<open>ret_code\<close> -1 and the decoder's message about
  the nil target; the data is empty and the world is returned unchanged, so the namespace
  query service has not been called.
\<close>

theorem queryNamespace_rejects_wellformed_body:
  "queryNamespace QN \<lparr>Params = [], Body = Inr \<lparr>Names = [''shop'']\<rparr>\<rparr> w =
     (JSON StatusOK
        \<lparr>QueryNamespaceResp.RetHeader =
           \<lparr>RetCode = -1, RetMessage = ''json: Unmarshal(nil *main.QueryReq)''\<rparr>,
         Data = []\<rparr>, w)"
  by (simp add: queryNamespace_def BindJSON_def)

text \<open>
  C2. \<open>modifyNamespace\<close> with a namespace \<open>n\<close> in the body, followed by \<open>queryNamespace\<close>
  for a single name \<open>nm\<close>: the first answers -1 and leaves the world as it was, the second
  answers -1 with no data. The namespace is not returned, whatever the services are.
\<close>

theorem modify_then_query_returns_nothing:
  "modifyNamespace MN \<lparr>Params = [], Body = Inr n\<rparr> w =
     (JSON StatusOK \<lparr>RetCode = -1, RetMessage = []\<rparr>, w) \<and>
   fst (queryNamespace QN \<lparr>Params = [], Body = Inr \<lparr>Names = [nm]\<rparr>\<rparr>
          (snd (modifyNamespace MN \<lparr>Params = [], Body = Inr n\<rparr> w))) =
     JSON StatusOK
       \<lparr>QueryNamespaceResp.RetHeader =
          \<lparr>RetCode = -1, RetMessage = ''json: Unmarshal(nil *main.QueryReq)''\<rparr>,
        Data = []\<rparr> \<and>
   [] \<noteq> [n]"
  by (simp add: modifyNamespace_def queryNamespace_def BindJSON_def)

text \<open>
  C3. \<open>modifyNamespace\<close> on a body the decoder cannot read (here it ends early) answers
  \<open>ret_code\<close> -1 with an empty \<open>ret_message\<close>: the error branch does not copy the error's
  message into the header.
\<close>

theorem modifyNamespace_failure_has_empty_message:
  "fst (modifyNamespace MN \<lparr>Params = [], Body = Inl (errorString ''unexpected EOF'')\<rparr> w) =
     JSON StatusOK \<lparr>RetCode = -1, RetMessage = []\<rparr>"
  by (simp add: modifyNamespace_def BindJSON_def)

text \<open>
  C4, as stated, fails for \<open>delNamespace\<close>: when the delete service fails with the message
  \<open>boom\<close>, the response's message is \<open>delete namespace faild, boom\<close>, which is not the
  error's message.
\<close>

theorem delNamespace_message_counterexample:
  "fst (answer (Some (errorString ''boom'')) ''shop'' ()) = Some (errorString ''boom'') \<and>
   fst (delNamespace (answer (Some (errorString ''boom'')))
          \<lparr>Params = [(''name'', ''shop'')], Body = Inl (errorString ''EOF'') :: error + unit\<rparr>
          \<lparr>store = (), calls = [] :: unit call list\<rparr>) =
     JSON StatusOK \<lparr>RetCode = -1, RetMessage = ''delete namespace faild, boom''\<rparr> \<and>
   ''delete namespace faild, boom'' \<noteq> Error (errorString ''boom'')"
  by code_simp

text \<open>
  C4, amended. When the service call of a handler fails with an error \<open>e\<close>:
  \<open>sqlFingerprint\<close> and \<open>proxyConfigFingerprint\<close> answer -1 with exactly the message of \<open>e\<close>;
  \<open>delNamespace\<close> answers -1 with the message of \<open>e\<close> after the prefix
  \<open>delete namespace faild, \<close>.
\<close>

theorem service_error_message:
  "(TrimSpace (Param c ''name'') \<noteq> [] \<and>
    DN (TrimSpace (Param c ''name'')) (store w) = (Some e, s') \<longrightarrow>
      fst (delNamespace DN c w) =
        JSON StatusOK \<lparr>RetCode = -1, RetMessage = ''delete namespace faild, '' @ Error e\<rparr>) \<and>
   (TrimSpace (Param c ''name'') \<noteq> [] \<and>
    SF (TrimSpace (Param c ''name'')) (store w) = ((slow, errs, Some e), s') \<longrightarrow>
      fst (sqlFingerprint SF c w) =
        JSON StatusOK
          \<lparr>sqlFingerprintResp.RetHeader = \<lparr>RetCode = -1, RetMessage = Error e\<rparr>,
           ErrSQLs = errs, SlowSQLs = slow\<rparr>) \<and>
   (PF (store w) = ((data, Some e), s') \<longrightarrow>
      fst (proxyConfigFingerprint PF c w) =
        JSON StatusOK
          \<lparr>proxyConfigFingerprintResp.RetHeader = \<lparr>RetCode = -1, RetMessage = Error e\<rparr>,
           Data = data\<rparr>)"
  by (simp add: delNamespace_def sqlFingerprint_def proxyConfigFingerprint_def)

theorem service_error_message_witness:
  "TrimSpace (Param \<lparr>Params = [(''name'', ''shop'')], Body = Inl (errorString ''EOF'') :: error + unit\<rparr>
      ''name'') \<noteq> [] \<and>
   fst (delNamespace (answer (Some (errorString ''boom'')))
          \<lparr>Params = [(''name'', ''shop'')], Body = Inl (errorString ''EOF'') :: error + unit\<rparr>
          \<lparr>store = (), calls = [] :: unit call list\<rparr>) =
     JSON StatusOK \<lparr>RetCode = -1, RetMessage = ''delete namespace faild, boom''\<rparr> \<and>
   fst (sqlFingerprint (answer (Map.empty, Map.empty, Some (errorString ''boom'')))
          \<lparr>Params = [(''name'', ''shop'')], Body = Inl (errorString ''EOF'') :: error + unit\<rparr>
          \<lparr>store = (), calls = [] :: unit call list\<rparr>) =
     JSON StatusOK
       \<lparr>sqlFingerprintResp.RetHeader = \<lparr>RetCode = -1, RetMessage = ''boom''\<rparr>,
        ErrSQLs = Map.empty, SlowSQLs = Map.empty\<rparr> \<and>
   fst (proxyConfigFingerprint (Pair (Map.empty :: string \<rightharpoonup> string, Some (errorString ''boom'')))
          \<lparr>Params = [(''name'', ''shop'')], Body = Inl (errorString ''EOF'') :: error + unit\<rparr>
          \<lparr>store = (), calls = [] :: unit call list\<rparr>) =
     JSON StatusOK
       \<lparr>proxyConfigFingerprintResp.RetHeader = \<lparr>RetCode = -1, RetMessage = ''boom''\<rparr>,
        Data = Map.empty\<rparr>"
proof -
  let ?c = "\<lparr>Params = [(''name'', ''shop'')], Body = Inl (errorString ''EOF'') :: error + unit\<rparr>"
  let ?w = "\<lparr>store = (), calls = [] :: unit call list\<rparr>"
  have name: "TrimSpace (Param ?c ''name'') = ''shop''"
    by code_simp
  show ?thesis
    using service_error_message
      [of ?c "answer (Some (errorString ''boom''))" ?w "errorString ''boom''" "()"
          "answer (Map.empty, Map.empty, Some (errorString ''boom''))" Map.empty Map.empty
          "Pair (Map.empty :: string \<rightharpoonup> string, Some (errorString ''boom''))" Map.empty]
    by (simp add: name answer_def)
qed

text \<open>
  C9. When the \<open>name\<close> path parameter is empty once trimmed (it was empty, or white space
  only), \<open>delNamespace\<close> and \<open>sqlFingerprint\<close> answer \<open>ret_code\<close> -1 with the message
  \<open>input name is empty\<close> and return the world unchanged: the service is not called (the
  trace of calls is the same) and the store is the same, so nothing is deleted or queried.
\<close>

theorem empty_name_is_rejected:
  "TrimSpace (Param c ''name'') = [] \<Longrightarrow>
     delNamespace DN c w =
       (JSON StatusOK \<lparr>RetCode = -1, RetMessage = ''input name is empty''\<rparr>, w) \<and>
     sqlFingerprint SF c w =
       (JSON StatusOK
          \<lparr>sqlFingerprintResp.RetHeader =
             \<lparr>RetCode = -1, RetMessage = ''input name is empty''\<rparr>,
           ErrSQLs = Map.empty, SlowSQLs = Map.empty\<rparr>, w)"
  by (simp add: delNamespace_def sqlFingerprint_def)

theorem empty_name_is_rejected_witness:
  "TrimSpace
     (Param \<lparr>Params = [(''name'', [CHR 0x20, CHR 0x09, CHR 0xC2, CHR 0xA0])],
             Body = Inl (errorString ''EOF'') :: error + unit\<rparr> ''name'') = [] \<and>
   delNamespace (answer None)
     \<lparr>Params = [(''name'', [CHR 0x20, CHR 0x09, CHR 0xC2, CHR 0xA0])],
      Body = Inl (errorString ''EOF'') :: error + unit\<rparr>
     \<lparr>store = (), calls = [] :: unit call list\<rparr> =
     (JSON StatusOK \<lparr>RetCode = -1, RetMessage = ''input name is empty''\<rparr>,
      \<lparr>store = (), calls = []\<rparr>) \<and>
   sqlFingerprint (answer (Map.empty, Map.empty, None))
     \<lparr>Params = [(''name'', [CHR 0x20, CHR 0x09, CHR 0xC2, CHR 0xA0])],
      Body = Inl (errorString ''EOF'') :: error + unit\<rparr>
     \<lparr>store = (), calls = [] :: unit call list\<rparr> =
     (JSON StatusOK
        \<lparr>sqlFingerprintResp.RetHeader =
           \<lparr>RetCode = -1, RetMessage = ''input name is empty''\<rparr>,
         ErrSQLs = Map.empty, SlowSQLs = Map.empty\<rparr>,
      \<lparr>store = (), calls = []\<rparr>)"
proof -
  let ?c = "\<lparr>Params = [(''name'', [CHR 0x20, CHR 0x09, CHR 0xC2, CHR 0xA0])],
             Body = Inl (errorString ''EOF'') :: error + unit\<rparr>"
  let ?w = "\<lparr>store = (), calls = [] :: unit call list\<rparr>"
  have name: "TrimSpace (Param ?c ''name'') = []"
    by code_simp
  from empty_name_is_rejected
         [OF name, of "answer None" ?w "answer (Map.empty, Map.empty, None)"] name
  show ?thesis by simp
qed

lemma queryNamespace_retCode:
  "\<exists>r. fst (queryNamespace QN c w) = JSON StatusOK r \<and>
       retCodeReflects (QueryNamespaceResp.RetHeader r) (queryNamespace_ok QN c w)"
  by (auto simp: queryNamespace_def queryNamespace_ok_def retCodeReflects_def BindJSON_def
           split: sum.splits)

lemma modifyNamespace_retCode:
  "\<exists>h. fst (modifyNamespace MN c w) = JSON StatusOK h \<and>
       retCodeReflects h (modifyNamespace_ok MN c w)"
  by (auto simp: modifyNamespace_def modifyNamespace_ok_def retCodeReflects_def BindJSON_def
           split: sum.splits)

lemma delNamespace_retCode:
  "\<exists>h. fst (delNamespace DN c w) = JSON StatusOK h \<and>
       retCodeReflects h (delNamespace_ok DN c w)"
  by (auto simp: delNamespace_def delNamespace_ok_def retCodeReflects_def Let_def
           split: prod.splits option.splits)

lemma sqlFingerprint_retCode:
  "\<exists>r. fst (sqlFingerprint SF c w) = JSON StatusOK r \<and>
       retCodeReflects (sqlFingerprintResp.RetHeader r) (sqlFingerprint_ok SF c w)"
  by (auto simp: sqlFingerprint_def sqlFingerprint_ok_def retCodeReflects_def Let_def
           split: prod.splits option.splits)

lemma proxyConfigFingerprint_retCode:
  "\<exists>r. fst (proxyConfigFingerprint PF c w) = JSON StatusOK r \<and>
       retCodeReflects (proxyConfigFingerprintResp.RetHeader r)
         (proxyConfigFingerprint_ok PF w)"
  by (auto simp: proxyConfigFingerprint_def proxyConfigFingerprint_ok_def retCodeReflects_def
           Let_def split: prod.splits option.splits)

text \<open>
  C10. Every handler answers with a response whose \<open>ret_code\<close> is -1 or 0; it is 0 exactly
  when every step of the handler (the check of the name, the binding of the request, the
  service call) succeeded, and then the message is \<open>SUCC\<close>; after any failure it is -1.
\<close>

theorem ret_code_reflects_success:
  "(\<exists>r. fst (queryNamespace QN cq w) = JSON StatusOK r \<and>
        retCodeReflects (QueryNamespaceResp.RetHeader r) (queryNamespace_ok QN cq w)) \<and>
   (\<exists>h. fst (modifyNamespace MN cm w) = JSON StatusOK h \<and>
        retCodeReflects h (modifyNamespace_ok MN cm w)) \<and>
   (\<exists>h. fst (delNamespace DN c w) = JSON StatusOK h \<and>
        retCodeReflects h (delNamespace_ok DN c w)) \<and>
   (\<exists>r. fst (sqlFingerprint SF c w) = JSON StatusOK r \<and>
        retCodeReflects (sqlFingerprintResp.RetHeader r) (sqlFingerprint_ok SF c w)) \<and>
   (\<exists>r. fst (proxyConfigFingerprint PF c w) = JSON StatusOK r \<and>
        retCodeReflects (proxyConfigFingerprintResp.RetHeader r)
          (proxyConfigFingerprint_ok PF w))"
  using queryNamespace_retCode modifyNamespace_retCode delNamespace_retCode
    sqlFingerprint_retCode proxyConfigFingerprint_retCode
  by blast

theorem ret_code_reflects_success_witness:
  "delNamespace_ok (answer None)
     \<lparr>Params = [(''name'', ''shop'')], Body = Inl (errorString ''EOF'') :: error + unit\<rparr>
     \<lparr>store = (), calls = [] :: unit call list\<rparr> \<and>
   fst (delNamespace (answer None)
          \<lparr>Params = [(''name'', ''shop'')], Body = Inl (errorString ''EOF'') :: error + unit\<rparr>
          \<lparr>store = (), calls = [] :: unit call list\<rparr>) =
     JSON StatusOK \<lparr>RetCode = 0, RetMessage = ''SUCC''\<rparr> \<and>
   retCodeReflects \<lparr>RetCode = 0, RetMessage = ''SUCC''\<rparr> True"
proof -
  let ?c = "\<lparr>Params = [(''name'', ''shop'')], Body = Inl (errorString ''EOF'') :: error + unit\<rparr>"
  let ?w = "\<lparr>store = (), calls = [] :: unit call list\<rparr>"
  have name: "TrimSpace (Param ?c ''name'') = ''shop''"
    by code_simp
  have ok: "delNamespace_ok (answer None) ?c ?w"
    by (simp add: delNamespace_ok_def name answer_def)
  have run: "fst (delNamespace (answer None) ?c ?w) =
               JSON StatusOK \<lparr>RetCode = 0, RetMessage = ''SUCC''\<rparr>"
    by (simp add: delNamespace_def name answer_def)
  from ret_code_reflects_success
         [of "answer ([], None)" "\<lparr>Params = [], Body = Inl (errorString ''EOF'')\<rparr>" ?w
             "answer None" ?c "answer None" ?c
             "answer (Map.empty, Map.empty, None)"
             "Pair (Map.empty :: string \<rightharpoonup> string, None)"]
  have "\<exists>h. fst (delNamespace (answer None) ?c ?w) = JSON StatusOK h \<and>
            retCodeReflects h (delNamespace_ok (answer None) ?c ?w)"
    by blast
  with ok run show ?thesis by simp
qed

lemma poll_answering: "answering (snd (poll a fl)) = answering fl"
  by (simp add: poll_def split: option.splits)

lemma poll_result:
  "(case fst (poll a fl) of Inl e \<Rightarrow> Unreachable | Inr fp \<Rightarrow> Fingerprint fp) = observed fl a"
  by (simp add: poll_def observed_def split: option.splits)

lemma pollAll_results:
  "fst (pollAll as fl) = map (\<lambda>a. (a, observed fl a)) as \<and>
   answering (snd (pollAll as fl)) = answering fl"
proof (induction as arbitrary: fl)
  case Nil
  show ?case by simp
next
  case (Cons a as)
  obtain r fl1 where p: "poll a fl = (r, fl1)"
    by (cases "poll a fl")
  obtain rs fl2 where q: "pollAll as fl1 = (rs, fl2)"
    by (cases "pollAll as fl1")
  from p have a1: "answering fl1 = answering fl"
    using poll_answering [of a fl] by simp
  from p have r1:
    "(case r of Inl e \<Rightarrow> Unreachable | Inr fp \<Rightarrow> Fingerprint fp) = observed fl a"
    using poll_result [of a fl] by simp
  from Cons.IH [of fl1] q
  have ih: "rs = map (\<lambda>a. (a, observed fl1 a)) as" "answering fl2 = answering fl1"
    by simp_all
  have "observed fl1 = observed fl"
    using a1 by (simp add: observed_def fun_eq_iff)
  with p q r1 ih a1 show ?case by simp
qed

lemma map_of_graph:
  "map_of (map (\<lambda>a. (a, f a)) as) x = (if x \<in> set as then Some (f x) else None)"
  by (induction as) auto

text \<open>
  C5. With \<open>verify\<close> as its service, \<open>proxyConfigFingerprint\<close> answers \<open>ret_code\<close> 0 and
  \<open>SUCC\<close> for every fleet, whichever nodes are unreachable. The mapping it returns has
  exactly the known addresses as keys; a node that does not answer is mapped to
  \<open>Unreachable\<close>, a node that answers to its fingerprint.
\<close>

theorem verify_reports_every_node:
  "\<exists>r w'. proxyConfigFingerprint verify c w = (JSON StatusOK r, w') \<and>
     RetCode (proxyConfigFingerprintResp.RetHeader r) = 0 \<and>
     RetMessage (proxyConfigFingerprintResp.RetHeader r) = ''SUCC'' \<and>
     dom (Data r) = fst ` set (registry (store w)) \<and>
     (\<forall>a \<in> fst ` set (registry (store w)).
        Data r a =
          Some (case map_of (answering (store w)) a of
                  None \<Rightarrow> Unreachable
                | Some fp \<Rightarrow> Fingerprint fp))"
proof -
  obtain rs fl' where pa: "pollAll (map fst (registry (store w))) (store w) = (rs, fl')"
    by (cases "pollAll (map fst (registry (store w))) (store w)")
  with pollAll_results [of "map fst (registry (store w))" "store w"]
  have rs: "rs = map (\<lambda>a. (a, observed (store w) a)) (map fst (registry (store w)))"
    by simp
  have look:
    "map_of rs x =
       (if x \<in> fst ` set (registry (store w)) then Some (observed (store w) x) else None)"
    for x
    unfolding rs
    using map_of_graph [of "observed (store w)" "map fst (registry (store w))" x] by simp
  have d: "dom (map_of rs) = fst ` set (registry (store w))"
    by (auto simp: look dom_def)
  show ?thesis
    using pa d look by (simp add: proxyConfigFingerprint_def verify_def observed_def)
qed

theorem verify_reports_every_node_witness:
  "fst (proxyConfigFingerprint verify
          \<lparr>Params = [], Body = Inl (errorString ''EOF'') :: error + unit\<rparr>
          \<lparr>store =
             \<lparr>registry =
                [(''10.0.0.1:13307'',
                  \<lparr>lastFingerprint = [], lastObserved = 0, unreachable = False\<rparr>),
                 (''10.0.0.2:13307'',
                  \<lparr>lastFingerprint = [], lastObserved = 0, unreachable = False\<rparr>)],
              answering = [(''10.0.0.1:13307'', ''abc123'')],
              clock = 7\<rparr>,
           calls = [] :: unit call list\<rparr>) =
     JSON StatusOK
       \<lparr>proxyConfigFingerprintResp.RetHeader = \<lparr>RetCode = 0, RetMessage = ''SUCC''\<rparr>,
        Data = map_of [(''10.0.0.1:13307'', Fingerprint ''abc123''),
                       (''10.0.0.2:13307'', Unreachable)]\<rparr>"
proof -
  let ?c = "\<lparr>Params = [], Body = Inl (errorString ''EOF'') :: error + unit\<rparr>"
  let ?w = "\<lparr>store =
             \<lparr>registry =
                [(''10.0.0.1:13307'',
                  \<lparr>lastFingerprint = [], lastObserved = 0, unreachable = False\<rparr>),
                 (''10.0.0.2:13307'',
                  \<lparr>lastFingerprint = [], lastObserved = 0, unreachable = False\<rparr>)],
              answering = [(''10.0.0.1:13307'', ''abc123'')],
              clock = 7\<rparr>,
           calls = [] :: unit call list\<rparr>"
  have run:
    "fst (proxyConfigFingerprint verify ?c ?w) =
       JSON StatusOK
         \<lparr>proxyConfigFingerprintResp.RetHeader = \<lparr>RetCode = 0, RetMessage = ''SUCC''\<rparr>,
          Data = map_of [(''10.0.0.1:13307'', Fingerprint ''abc123''),
                         (''10.0.0.2:13307'', Unreachable)]\<rparr>"
    by (simp add: proxyConfigFingerprint_def verify_def poll_def)
  from verify_reports_every_node [of ?c ?w] run
  show ?thesis by simp
qed

text \<open>
  C6, as stated, fails for a name of white space only: no namespace has the name
  \<open>" "\<close>, and \<open>delNamespace\<close> answers \<open>input name is empty\<close>, which is not the message of
  a NotFoundError.
\<close>

theorem delNamespace_blank_name_counterexample:
  "map_of (namespaces (store
       \<lparr>store = \<lparr>namespaces = [(''shop'', ())], entries = []\<rparr>,
        calls = [] :: unit call list\<rparr>))
     (Param \<lparr>Params = [(''name'', '' '')], Body = Inl (errorString ''EOF'') :: error + unit\<rparr>
        ''name'') = None \<and>
   fst (delNamespace NamespaceStore_delete
          \<lparr>Params = [(''name'', '' '')], Body = Inl (errorString ''EOF'') :: error + unit\<rparr>
          \<lparr>store = \<lparr>namespaces = [(''shop'', ())], entries = []\<rparr>,
           calls = [] :: unit call list\<rparr>) =
     JSON StatusOK \<lparr>RetCode = -1, RetMessage = ''input name is empty''\<rparr> \<and>
   ''input name is empty'' \<noteq>
     ''delete namespace faild, '' @ Error (NotFoundError (''namespace not found: '' @ '' ''))"
proof -
  let ?c = "\<lparr>Params = [(''name'', '' '')], Body = Inl (errorString ''EOF'') :: error + unit\<rparr>"
  have param: "Param ?c ''name'' = '' ''"
    by (simp add: Param_def)
  have name: "TrimSpace '' '' = []"
    by code_simp
  show ?thesis
    by (simp add: delNamespace_def param name)
qed

text \<open>
  C6, amended. For every name that, once trimmed, is not the name of a namespace in the
  store, \<open>delNamespace\<close> over the store's \<open>delete\<close> answers \<open>ret_code\<close> -1 and leaves the
  store (namespaces and fingerprint entries) as it was. The message is that of the
  NotFoundError after the handler's prefix when the trimmed name is not empty, and
  \<open>input name is empty\<close> when it is.
\<close>

theorem delete_of_missing_namespace:
  "map_of (namespaces (store w)) (TrimSpace (Param c ''name'')) = None \<Longrightarrow>
     fst (delNamespace NamespaceStore_delete c w) =
       JSON StatusOK
         \<lparr>RetCode = -1,
          RetMessage =
            (if TrimSpace (Param c ''name'') = [] then ''input name is empty''
             else ''delete namespace faild, '' @
                  Error (NotFoundError
                           (''namespace not found: '' @ TrimSpace (Param c ''name''))))\<rparr> \<and>
     store (snd (delNamespace NamespaceStore_delete c w)) = store w"
  by (simp add: delNamespace_def NamespaceStore_delete_def Let_def)

theorem delete_of_missing_namespace_witness:
  "map_of (namespaces (store
       \<lparr>store = \<lparr>namespaces = [(''shop'', ())], entries = []\<rparr>,
        calls = [] :: unit call list\<rparr>))
     (TrimSpace
        (Param \<lparr>Params = [(''name'', '' orders '')],
                Body = Inl (errorString ''EOF'') :: error + unit\<rparr> ''name'')) = None \<and>
   fst (delNamespace NamespaceStore_delete
          \<lparr>Params = [(''name'', '' orders '')], Body = Inl (errorString ''EOF'') :: error + unit\<rparr>
          \<lparr>store = \<lparr>namespaces = [(''shop'', ())], entries = []\<rparr>,
           calls = [] :: unit call list\<rparr>) =
     JSON StatusOK
       \<lparr>RetCode = -1,
        RetMessage = ''delete namespace faild, namespace not found: orders''\<rparr> \<and>
   store (snd (delNamespace NamespaceStore_delete
          \<lparr>Params = [(''name'', '' orders '')], Body = Inl (errorString ''EOF'') :: error + unit\<rparr>
          \<lparr>store = \<lparr>namespaces = [(''shop'', ())], entries = []\<rparr>,
           calls = [] :: unit call list\<rparr>)) =
     \<lparr>namespaces = [(''shop'', ())], entries = []\<rparr>"
proof -
  let ?c = "\<lparr>Params = [(''name'', '' orders '')],
             Body = Inl (errorString ''EOF'') :: error + unit\<rparr>"
  let ?w = "\<lparr>store = \<lparr>namespaces = [(''shop'', ())], entries = []\<rparr>,
             calls = [] :: unit call list\<rparr>"
  have name: "TrimSpace (Param ?c ''name'') = ''orders''"
    by code_simp
  have absent: "map_of (namespaces (store ?w)) (TrimSpace (Param ?c ''name'')) = None"
    by (simp add: name)
  from delete_of_missing_namespace [OF absent] absent name
  show ?thesis by simp
qed

lemma afterQuote_le: "length (afterQuote q cs) \<le> length cs"
proof -
  have "length (dropWhile (\<lambda>x. x \<noteq> q) cs) \<le> length cs"
    by (rule length_dropWhile_le)
  then show ?thesis
    by (auto simp: afterQuote_def split: list.splits)
qed

lemma scan_returns: "\<exists>r. scan kws out s = Some r"
proof (induction "length s" arbitrary: out s rule: less_induct)
  case less
  show ?case
  proof (cases s)
    case Nil
    then show ?thesis by (simp add: scan.simps)
  next
    case (Cons c cs)
    have shorter: "length t \<le> length cs \<Longrightarrow> \<exists>r. scan kws out' t = Some r" for t out'
      using less [of t out'] Cons by simp
    have d: "length (dropWhile P cs) \<le> length cs" for P
      by (rule length_dropWhile_le)
    show ?thesis
      using Cons shorter [OF d] shorter [OF afterQuote_le] shorter [of cs]
      by (subst scan.simps) simp
  qed
qed

text \<open>
  C7. \<open>fingerprint\<close> returns a string on every input, well-formed SQL or not, and two
  invocations on the same bytes return the same string.
\<close>

theorem fingerprint_total_and_deterministic:
  "sql' = sql \<Longrightarrow>
     \<exists>out. fingerprint kws sql = Some out \<and> fingerprint kws sql' = Some out"
  using scan_returns [of kws "[]" sql] by (auto simp: fingerprint_def)

theorem fingerprint_total_and_deterministic_witness:
  "fingerprint [''select'', ''from'', ''where''] ''SELECT  * FROM t WHERE name = 'a;'' =
     Some ''select * from t where name = ?'' \<and>
   fingerprint [''select'', ''from'', ''where''] ''SELECT  * FROM t WHERE name = 'a;'' =
     fingerprint [''select'', ''from'', ''where''] ''SELECT  * FROM t WHERE name = 'a;''"
proof -
  have run: "fingerprint [''select'', ''from'', ''where''] ''SELECT  * FROM t WHERE name = 'a;'' =
               Some ''select * from t where name = ?''"
    by code_simp
  from fingerprint_total_and_deterministic
         [OF refl, of "[''select'', ''from'', ''where'']" "''SELECT  * FROM t WHERE name = 'a;''"]
  obtain out where
    "fingerprint [''select'', ''from'', ''where''] ''SELECT  * FROM t WHERE name = 'a;'' = Some out"
    by blast
  with run show ?thesis by simp
qed

end
